theory Spec2Isabelle
  imports Complex_Main
begin

section \<open>Lowering of transformable operators (tinynn/converter/operators/tflite/transformable.py)\<close>

text \<open>
  The theory embeds the three lowering operations of \<^verbatim>\<open>transformable.py\<close>:
  \<^verbatim>\<open>BatchNormOperator.transform\<close>, \<^verbatim>\<open>GenericConvOperator.transform\<close> and
  \<^verbatim>\<open>GenericTransposeConvOperator.transform\<close>, with the tensor factory and the layout
  wrapper of \<^verbatim>\<open>TransformableOperator\<close>.

  Python lists are objects: \<^verbatim>\<open>Conv2dOperator(self.inputs, self.outputs, ...)\<close> hands the
  primitive the very list objects of the transformable operator, and the code relies on
  it (line 258 reads axis 3 of \<^verbatim>\<open>self.inputs[1]\<close> after \<^verbatim>\<open>conv_op.inputs[1]\<close> was
  replaced). Lists therefore live in an explicit store, and operators hold addresses.
  Tensors are never mutated by this file and are plain values.
\<close>

subsection \<open>Exceptions and the state-and-exception monad\<close>

datatype error =
  IndexError | AttributeError | ValueError | TypeError | KeyError | AssertionError

type_synonym ('a, 's) py = "'s \<Rightarrow> (error + 'a) \<times> 's"

definition py_return :: "'a \<Rightarrow> ('a, 's) py" where
  "py_return x = (\<lambda>s. (Inr x, s))"

definition py_raise :: "error \<Rightarrow> ('a, 's) py" where
  "py_raise e = (\<lambda>s. (Inl e, s))"

text \<open>Sequencing: an exception stops the rest, and the state reached so far stays.\<close>

definition py_bind :: "('a, 's) py \<Rightarrow> ('a \<Rightarrow> ('b, 's) py) \<Rightarrow> ('b, 's) py" where
  "py_bind m f = (\<lambda>s. case m s of (Inl e, s') \<Rightarrow> (Inl e, s') | (Inr x, s') \<Rightarrow> f x s')"

definition py_lift :: "error + 'a \<Rightarrow> ('a, 's) py" where
  "py_lift r = (\<lambda>s. (r, s))"

definition py_get :: "('s \<Rightarrow> 'a) \<Rightarrow> ('a, 's) py" where
  "py_get f = (\<lambda>s. (Inr (f s), s))"

definition py_modify :: "('s \<Rightarrow> 's) \<Rightarrow> (unit, 's) py" where
  "py_modify f = (\<lambda>s. (Inr (), f s))"

text \<open>A list comprehension whose body may raise: left to right, stopping at the first exception.\<close>

fun py_mapM :: "('a \<Rightarrow> ('b, 's) py) \<Rightarrow> 'a list \<Rightarrow> ('b list, 's) py" where
  "py_mapM f [] = py_return []"
| "py_mapM f (x # xs) =
     py_bind (f x) (\<lambda>y. py_bind (py_mapM f xs) (\<lambda>ys. py_return (y # ys)))"

text \<open>\<^verbatim>\<open>xs[i]\<close> for a non-negative index, \<^verbatim>\<open>xs[-1]\<close> and \<^verbatim>\<open>xs[-2]\<close>.\<close>

definition py_index :: "'a list \<Rightarrow> nat \<Rightarrow> error + 'a" where
  "py_index xs i = (if i < length xs then Inr (xs ! i) else Inl IndexError)"

definition py_index_from_end :: "'a list \<Rightarrow> nat \<Rightarrow> error + 'a" where
  "py_index_from_end xs k =
     (if 0 < k \<and> k \<le> length xs then Inr (xs ! (length xs - k)) else Inl IndexError)"

text \<open>Attribute access on a value that may be \<^verbatim>\<open>None\<close>.\<close>

definition py_attr :: "'a option \<Rightarrow> error + 'a" where
  "py_attr x = (case x of None \<Rightarrow> Inl AttributeError | Some v \<Rightarrow> Inr v)"

text \<open>\<^verbatim>\<open>xs.insert(i, x)\<close> for a non-negative index: past the end it appends.\<close>

definition py_insert :: "nat \<Rightarrow> 'a \<Rightarrow> 'a list \<Rightarrow> 'a list" where
  "py_insert i x xs = take i xs @ x # drop i xs"

text \<open>The decimal text of a counter, as an f-string prints it.\<close>

definition digit_char :: "nat \<Rightarrow> char" where
  "digit_char d = ''0123456789'' ! (d mod 10)"

function str_nat :: "nat \<Rightarrow> string" where
  "str_nat n = (if n < 10 then [digit_char n] else str_nat (n div 10) @ [digit_char (n mod 10)])"
  by pat_completeness auto
termination
  by (relation "measure (\<lambda>n. n)") auto

declare str_nat.simps [simp del]

subsection \<open>Arrays, tensors and quantization parameters\<close>

datatype dtype = Float16 | Float32 | Float64 | Int8 | UInt8 | Int16 | Int32 | Int64

text \<open>
  A numpy array, as far as the lowering looks at it: its shape, its element type, and its
  elements in row-major order where the lowering itself fixes them (permutations, shape
  vectors, pad amounts, zero fills). \<open>elems = None\<close> stands for numeric data the model
  does not follow (inference-time values, floating-point results).
\<close>

record ndarray =
  shape :: "nat list"
  dtype :: dtype
  elems :: "int list option"

record QuantizationParameters =
  scale :: rat
  zero_point :: int

text \<open>
  Modelled from the spec: the \<^verbatim>\<open>Tensor\<close> value object of \<^verbatim>\<open>base.py\<close> (not part of this
  file): a named, typed, shaped value with an optional constant buffer and optional
  quantization parameters. \<^verbatim>\<open>t.shape\<close> and \<^verbatim>\<open>t.dtype\<close> are those of \<^verbatim>\<open>t.tensor\<close>, and
  \<^verbatim>\<open>t.buffer is not None\<close> is \<open>has_buffer t\<close>.
\<close>

record Tensor =
  tensor :: ndarray
  name :: string
  has_buffer :: bool
  quantization :: "QuantizationParameters option"

definition mk_Tensor :: "ndarray \<Rightarrow> string \<Rightarrow> bool \<Rightarrow> QuantizationParameters option \<Rightarrow> Tensor" where
  "mk_Tensor a n b q = \<lparr>tensor = a, name = n, has_buffer = b, quantization = q\<rparr>"

abbreviation tshape :: "Tensor \<Rightarrow> nat list" where
  "tshape t \<equiv> shape (tensor t)"

abbreviation tdtype :: "Tensor \<Rightarrow> dtype" where
  "tdtype t \<equiv> dtype (tensor t)"

subsection \<open>The numpy calls of the lowering, on shapes\<close>

text \<open>\<^verbatim>\<open>np.array(xs, dtype='int32')\<close> for a flat list and for a list of rows.\<close>

definition np_array_int32 :: "int list \<Rightarrow> ndarray" where
  "np_array_int32 xs = \<lparr>shape = [length xs], dtype = Int32, elems = Some xs\<rparr>"

definition np_array2_int32 :: "int list list \<Rightarrow> nat \<Rightarrow> ndarray" where
  "np_array2_int32 rows w = \<lparr>shape = [length rows, w], dtype = Int32, elems = Some (concat rows)\<rparr>"

text \<open>\<^verbatim>\<open>np.zeros((n,), dtype=d)\<close>.\<close>

definition np_zeros :: "nat \<Rightarrow> dtype \<Rightarrow> ndarray" where
  "np_zeros n d = \<lparr>shape = [n], dtype = d, elems = Some (replicate n 0)\<rparr>"

text \<open>
  \<^verbatim>\<open>np.transpose(a, perm)\<close>: axis \<open>k\<close> of the result is axis \<open>perm[k]\<close> of \<open>a\<close>; numpy raises
  ValueError unless \<open>perm\<close> is a permutation of the axes of \<open>a\<close>.
\<close>

definition np_transpose :: "ndarray \<Rightarrow> nat list \<Rightarrow> error + ndarray" where
  "np_transpose a perm =
     (if length perm = length (shape a) \<and> distinct perm \<and> list_all (\<lambda>p. p < length (shape a)) perm
      then Inr \<lparr>shape = map (\<lambda>p. shape a ! p) perm, dtype = dtype a, elems = None\<rparr>
      else Inl ValueError)"

text \<open>\<^verbatim>\<open>np.expand_dims(a, 2)\<close>: a unit axis at position 2; an array of rank below 2 has no such position.\<close>

definition np_expand_dims2 :: "ndarray \<Rightarrow> error + ndarray" where
  "np_expand_dims2 a =
     (if length (shape a) < 2 then Inl ValueError
      else Inr (a\<lparr>shape := take 2 (shape a) @ [1] @ drop 2 (shape a)\<rparr>))"

text \<open>
  \<^verbatim>\<open>np.pad(a, [[0, 0], [h, h], [w, w], [0, 0]])\<close>: four pad pairs fit a rank-4 array only, and
  a negative amount is refused.
\<close>

definition np_pad_hw :: "ndarray \<Rightarrow> int \<Rightarrow> int \<Rightarrow> error + ndarray" where
  "np_pad_hw a h w =
     (if length (shape a) = 4 \<and> 0 \<le> h \<and> 0 \<le> w
      then Inr \<lparr>shape = [shape a ! 0, shape a ! 1 + 2 * nat h, shape a ! 2 + 2 * nat w, shape a ! 3],
                dtype = dtype a, elems = None\<rparr>
      else Inl ValueError)"

subsection \<open>Operators\<close>

datatype ActivationFunctionType = NONE | RELU | RELU_N1_TO_1 | RELU6 | TANH | SIGN_BIT

datatype Padding = SAME | VALID

datatype OpCode =
  ADD | CONV_2D | DEPTHWISE_CONV_2D | DEQUANTIZE | MUL | PAD | QUANTIZE | RESHAPE | SLICE
  | TRANSPOSE | TRANSPOSE_CONV
  | BATCH_NORM | GENERIC_CONV | GENERIC_DECONV
  | INPUT_NODE | OUTPUT_NODE | CONSTANT_NODE

text \<open>The keyword arguments the lowering passes to the constructors of \<^verbatim>\<open>generated_ops\<close>.\<close>

datatype Options =
  NoOptions
  | AddOptions ActivationFunctionType
  | ReshapeOptions ndarray
  | Conv2dOptions (strideH: int) (strideW: int) (dilationHFactor: int) (dilationWFactor: int)
      ActivationFunctionType Padding
  | DepthwiseConv2dOptions (strideH: int) (strideW: int) (depthMultiplier: int)
      (dilationHFactor: int) (dilationWFactor: int) ActivationFunctionType Padding
  | TransposeConvOptions (strideH: int) (strideW: int) Padding

type_synonym addr = nat

text \<open>
  \<^verbatim>\<open>BaseOperator\<close> keeps the list objects it is given: \<open>inputs\<close> and \<open>outputs\<close> are
  addresses of lists in the store. An entry of a list is a tensor or \<^verbatim>\<open>None\<close>.
\<close>

record BaseOperator =
  op :: OpCode
  inputs :: addr
  outputs :: addr

record PrimitiveOperator = BaseOperator +
  options :: Options

record TransformableOperator = BaseOperator +
  attr_count :: nat
  transform_count :: nat

record BatchNormOperator = TransformableOperator +
  bn_fusedActivationFunction :: ActivationFunctionType

text \<open>
  \<^verbatim>\<open>GenericConvOperator\<close> and \<^verbatim>\<open>GenericTransposeConvOperator\<close> declare the same parameter
  fields; the convolution has the fused activation in addition.
\<close>

record GenericTransposeConvOperator = TransformableOperator +
  stride :: "int list"
  padding :: "int list"
  dilation :: "int list"
  output_padding :: "int list"
  groups :: int

record GenericConvOperator = GenericTransposeConvOperator +
  fusedActivationFunction :: ActivationFunctionType

definition mk_op :: "OpCode \<Rightarrow> addr \<Rightarrow> addr \<Rightarrow> Options \<Rightarrow> PrimitiveOperator" where
  "mk_op c i out opts = \<lparr>op = c, inputs = i, outputs = out, options = opts\<rparr>"

subsection \<open>The machine: store, the operator being lowered, and what reached the graph\<close>

text \<open>
  \<open>added\<close> logs the calls of \<^verbatim>\<open>graph_converter.add_operator\<close> in order, each with its
  \<^verbatim>\<open>transform\<close> flag; \<open>restore_calls\<close> counts \<^verbatim>\<open>try_restore_edges\<close>; \<open>warnings\<close> logs
  \<^verbatim>\<open>warnings.warn\<close>.
\<close>

record 'self machine =
  heap :: "addr \<Rightarrow> Tensor option list"
  next_addr :: addr
  self :: 'self
  added :: "(PrimitiveOperator \<times> bool) list"
  restore_calls :: nat
  warnings :: "string list"

text \<open>
  The constructors: the operator keeps the two lists it is given (at addresses 0 and 1 of a
  store that holds nothing else), the counters start at 0, and nothing has reached the
  graph yet.
\<close>

definition fresh_machine :: "Tensor option list \<Rightarrow> Tensor option list \<Rightarrow> 'self \<Rightarrow> 'self machine" where
  "fresh_machine ins outs me =
     \<lparr>heap = (\<lambda>_. [])(0 := ins, 1 := outs), next_addr = 2, self = me,
      added = [], restore_calls = 0, warnings = []\<rparr>"

definition BatchNormOperator_init ::
  "Tensor option list \<Rightarrow> Tensor option list \<Rightarrow> ActivationFunctionType \<Rightarrow> BatchNormOperator machine" where
  "BatchNormOperator_init ins outs act = fresh_machine ins outs
     \<lparr>op = BATCH_NORM, inputs = 0, outputs = 1, attr_count = 0, transform_count = 0,
      bn_fusedActivationFunction = act\<rparr>"

definition GenericConvOperator_init ::
  "Tensor option list \<Rightarrow> Tensor option list \<Rightarrow> int list \<Rightarrow> int list \<Rightarrow> int list \<Rightarrow> int list
    \<Rightarrow> int \<Rightarrow> ActivationFunctionType \<Rightarrow> GenericConvOperator machine" where
  "GenericConvOperator_init ins outs strd pad dialation out_pad grps act = fresh_machine ins outs
     \<lparr>op = GENERIC_CONV, inputs = 0, outputs = 1, attr_count = 0, transform_count = 0,
      stride = strd, padding = pad, dilation = dialation, output_padding = out_pad,
      groups = grps, fusedActivationFunction = act\<rparr>"

definition GenericTransposeConvOperator_init ::
  "Tensor option list \<Rightarrow> Tensor option list \<Rightarrow> int list \<Rightarrow> int list \<Rightarrow> int list \<Rightarrow> int list
    \<Rightarrow> int \<Rightarrow> GenericTransposeConvOperator machine" where
  "GenericTransposeConvOperator_init ins outs strd pad dil out_pad grps = fresh_machine ins outs
     \<lparr>op = GENERIC_DECONV, inputs = 0, outputs = 1, attr_count = 0, transform_count = 0,
      stride = strd, padding = pad, dilation = dil, output_padding = out_pad, groups = grps\<rparr>"

text \<open>The operators that reached the graph, in order, with their lists read from the store.\<close>

definition emitted :: "'self machine \<Rightarrow> (OpCode \<times> Tensor option list \<times> Tensor option list) list" where
  "emitted s = map (\<lambda>(p, _). (op p, heap s (inputs p), heap s (outputs p))) (added s)"

text \<open>An inference-time tensor of a given shape and element type, for examples.\<close>

definition example_tensor :: "string \<Rightarrow> nat list \<Rightarrow> dtype \<Rightarrow> Tensor" where
  "example_tensor n sh d = mk_Tensor \<lparr>shape = sh, dtype = d, elems = None\<rparr> n False None"

definition example_constant :: "string \<Rightarrow> nat list \<Rightarrow> dtype \<Rightarrow> Tensor" where
  "example_constant n sh d = mk_Tensor \<lparr>shape = sh, dtype = d, elems = None\<rparr> n True None"

text \<open>A list display \<^verbatim>\<open>[a, b]\<close> or a list expression: a new list object.\<close>

definition new_list :: "Tensor option list \<Rightarrow> (addr, 'self machine) py" where
  "new_list xs = (\<lambda>s. (Inr (next_addr s), s\<lparr>heap := (heap s)(next_addr s := xs), next_addr := Suc (next_addr s)\<rparr>))"

definition read_list :: "addr \<Rightarrow> (Tensor option list, 'self machine) py" where
  "read_list a = py_get (\<lambda>s. heap s a)"

text \<open>\<^verbatim>\<open>l[i] = v\<close> on the list object at \<open>a\<close>.\<close>

definition store_item :: "addr \<Rightarrow> nat \<Rightarrow> Tensor option \<Rightarrow> (unit, 'self machine) py" where
  "store_item a i v = (\<lambda>s.
     if i < length (heap s a) then (Inr (), s\<lparr>heap := (heap s)(a := (heap s a)[i := v])\<rparr>)
     else (Inl IndexError, s))"

text \<open>\<^verbatim>\<open>l[i]\<close> and then an attribute of it.\<close>

definition item :: "addr \<Rightarrow> nat \<Rightarrow> (Tensor option, 'self machine) py" where
  "item a i = py_bind (read_list a) (\<lambda>xs. py_lift (py_index xs i))"

definition item_tensor :: "addr \<Rightarrow> nat \<Rightarrow> (Tensor, 'self machine) py" where
  "item_tensor a i = py_bind (item a i) (\<lambda>x. py_lift (py_attr x))"

definition add_operator :: "PrimitiveOperator \<Rightarrow> bool \<Rightarrow> (unit, 'self machine) py" where
  "add_operator p transform = py_modify (\<lambda>s. s\<lparr>added := added s @ [(p, transform)]\<rparr>)"

definition try_restore_edges :: "(unit, 'self machine) py" where
  "try_restore_edges = py_modify (\<lambda>s. s\<lparr>restore_calls := Suc (restore_calls s)\<rparr>)"

definition warn :: "string \<Rightarrow> (unit, 'self machine) py" where
  "warn msg = py_modify (\<lambda>s. s\<lparr>warnings := warnings s @ [msg]\<rparr>)"

text \<open>An operator as the graph sees it: its lists read from the store.\<close>

definition inputs_of :: "'self machine \<Rightarrow> 'a BaseOperator_scheme \<Rightarrow> Tensor option list" where
  "inputs_of s p = heap s (inputs p)"

definition outputs_of :: "'self machine \<Rightarrow> 'a BaseOperator_scheme \<Rightarrow> Tensor option list" where
  "outputs_of s p = heap s (outputs p)"

subsection \<open>TransformableOperator: the tensor factory\<close>

definition first_output_name :: "(string, ('a TransformableOperator_scheme) machine) py" where
  "first_output_name = py_bind (py_get (\<lambda>s. outputs (self s))) (\<lambda>a.
     py_bind (item_tensor a 0) (\<lambda>t. py_return (name t)))"

definition create_attr_tensor ::
  "ndarray \<Rightarrow> string option \<Rightarrow> QuantizationParameters option
    \<Rightarrow> (Tensor, ('a TransformableOperator_scheme) machine) py" where
  "create_attr_tensor a nm q =
     (case nm of
        Some n \<Rightarrow> py_return (mk_Tensor a n True q)
      | None \<Rightarrow>
          py_bind (py_get (\<lambda>s. attr_count (self s))) (\<lambda>c.
          py_bind first_output_name (\<lambda>out.
          py_bind (py_modify (\<lambda>s. s\<lparr>self := (self s)\<lparr>attr_count := Suc c\<rparr>\<rparr>)) (\<lambda>_.
          py_return (mk_Tensor a
            (if c = 0 then out @ ''_te_attr'' else out @ ''_te_attr_'' @ str_nat c) True q)))))"

definition create_transform_tensor ::
  "ndarray \<Rightarrow> string option \<Rightarrow> QuantizationParameters option
    \<Rightarrow> (Tensor, ('a TransformableOperator_scheme) machine) py" where
  "create_transform_tensor a nm q =
     (case nm of
        Some n \<Rightarrow> py_return (mk_Tensor a n False q)
      | None \<Rightarrow>
          py_bind (py_get (\<lambda>s. transform_count (self s))) (\<lambda>c.
          py_bind first_output_name (\<lambda>out.
          py_bind (py_modify (\<lambda>s. s\<lparr>self := (self s)\<lparr>transform_count := Suc c\<rparr>\<rparr>)) (\<lambda>_.
          py_return (mk_Tensor a
            (if c = 0 then out @ ''_te_transform'' else out @ ''_te_transform_'' @ str_nat c) False q)))))"

text \<open>
  A lowering calls the factory many times, and between two calls it may replace the list
  \<^verbatim>\<open>self.outputs\<close> or an entry of it (lines 64, 196, 350 do). A sequence of such steps, with
  no explicit name supplied, and the tensors it creates:
\<close>

datatype factory_call =
  NewAttr ndarray "QuantizationParameters option"
  | NewTransform ndarray "QuantizationParameters option"
  | SetOutputs "Tensor option list"

fun factory_step ::
  "factory_call \<Rightarrow> (Tensor list, ('a TransformableOperator_scheme) machine) py" where
  "factory_step (NewAttr a q) = py_bind (create_attr_tensor a None q) (\<lambda>t. py_return [t])"
| "factory_step (NewTransform a q) = py_bind (create_transform_tensor a None q) (\<lambda>t. py_return [t])"
| "factory_step (SetOutputs outs) =
     py_bind (py_modify (\<lambda>s. s\<lparr>heap := (heap s)(outputs (self s) := outs)\<rparr>)) (\<lambda>_. py_return [])"

fun factory_calls ::
  "factory_call list \<Rightarrow> (Tensor list, ('a TransformableOperator_scheme) machine) py" where
  "factory_calls [] = py_return []"
| "factory_calls (c # cs) =
     py_bind (factory_step c) (\<lambda>ts. py_bind (factory_calls cs) (\<lambda>us. py_return (ts @ us)))"

text \<open>The suffix the factory appends for counter value \<open>c\<close>, as lines 28 to 31 and 37 to 40 spell it.\<close>

definition attr_suffix :: "nat \<Rightarrow> string" where
  "attr_suffix c = (if c = 0 then ''_te_attr'' else ''_te_attr_'' @ str_nat c)"

definition transform_suffix :: "nat \<Rightarrow> string" where
  "transform_suffix c = (if c = 0 then ''_te_transform'' else ''_te_transform_'' @ str_nat c)"

subsection \<open>TransformableOperator: the layout wrapper\<close>

definition wrap_ops_with_nhwc_nchw_transposes ::
  "PrimitiveOperator list \<Rightarrow> nat \<Rightarrow> nat
    \<Rightarrow> (PrimitiveOperator list, ('a TransformableOperator_scheme) machine) py" where
  "wrap_ops_with_nhwc_nchw_transposes ops input_idx output_idx =
     py_bind (py_lift (py_index ops 0)) (\<lambda>first_op.
     py_bind (item (inputs first_op) input_idx) (\<lambda>orig_input.
     py_bind (py_lift (py_index_from_end ops 1)) (\<lambda>last_op.
     py_bind (item (outputs last_op) output_idx) (\<lambda>orig_output.
     py_bind (create_attr_tensor (np_array_int32 [0, 3, 1, 2]) None None) (\<lambda>nhwc2nchw_perm_tensor.
     py_bind (create_attr_tensor (np_array_int32 [0, 2, 3, 1]) None None) (\<lambda>nchw2nhwc_perm_tensor.
     py_bind (py_lift (py_attr orig_input)) (\<lambda>oi.
     py_bind (py_lift (np_transpose (tensor oi) [0, 2, 3, 1])) (\<lambda>in_array.
     py_bind (create_transform_tensor in_array None (quantization oi)) (\<lambda>new_input.
     py_bind (py_lift (py_attr orig_output)) (\<lambda>oo.
     py_bind (py_lift (np_transpose (tensor oo) [0, 2, 3, 1])) (\<lambda>out_array.
     py_bind (create_transform_tensor out_array None (quantization oo)) (\<lambda>new_output.
     py_bind (new_list [orig_input, Some nchw2nhwc_perm_tensor]) (\<lambda>i1.
     py_bind (new_list [Some new_input]) (\<lambda>o1.
     py_bind (new_list [Some new_output, Some nhwc2nchw_perm_tensor]) (\<lambda>i2.
     py_bind (new_list [orig_output]) (\<lambda>o2.
     py_bind (store_item (inputs first_op) input_idx (Some new_input)) (\<lambda>_.
     py_bind (store_item (outputs last_op) output_idx (Some new_output)) (\<lambda>_.
     py_return (mk_op TRANSPOSE i1 o1 NoOptions # ops @ [mk_op TRANSPOSE i2 o2 NoOptions])))))))))))))))))))"

subsection \<open>BatchNormOperator.transform\<close>

text \<open>numpy broadcasting of two shapes, aligned at the last axis.\<close>

fun broadcast_rev :: "nat list \<Rightarrow> nat list \<Rightarrow> error + nat list" where
  "broadcast_rev [] ys = Inr ys"
| "broadcast_rev (x # xs) [] = Inr (x # xs)"
| "broadcast_rev (x # xs) (y # ys) =
     (if x = y \<or> x = 1 \<or> y = 1
      then (case broadcast_rev xs ys of
              Inl e \<Rightarrow> Inl e
            | Inr zs \<Rightarrow> Inr ((if x = 1 then y else x) # zs))
      else Inl ValueError)"

definition np_broadcast :: "nat list \<Rightarrow> nat list \<Rightarrow> error + nat list" where
  "np_broadcast a b =
     (case broadcast_rev (rev a) (rev b) of Inl e \<Rightarrow> Inl e | Inr zs \<Rightarrow> Inr (rev zs))"

text \<open>
  An elementwise binary operation (\<^verbatim>\<open>+\<close>, \<^verbatim>\<open>-\<close>, \<^verbatim>\<open>*\<close>, \<^verbatim>\<open>/\<close>) of two arrays: the shapes
  broadcast; the element type of the result is numpy's promotion of the two, which is not
  part of this file and is the parameter \<open>result_type\<close>. The floating-point values are not
  followed.
\<close>

definition np_binop :: "(dtype \<Rightarrow> dtype \<Rightarrow> dtype) \<Rightarrow> ndarray \<Rightarrow> ndarray \<Rightarrow> error + ndarray" where
  "np_binop result_type a b =
     (case np_broadcast (shape a) (shape b) of
        Inl e \<Rightarrow> Inl e
      | Inr sh \<Rightarrow> Inr \<lparr>shape = sh, dtype = result_type (dtype a) (dtype b), elems = None\<rparr>)"

text \<open>\<^verbatim>\<open>np.sqrt(a, dtype='float32')\<close> and the scalar \<^verbatim>\<open>np.array(self.eps, dtype='float32')\<close>.\<close>

definition np_sqrt_float32 :: "ndarray \<Rightarrow> ndarray" where
  "np_sqrt_float32 a = \<lparr>shape = shape a, dtype = Float32, elems = None\<rparr>"

definition np_scalar_float32 :: ndarray where
  "np_scalar_float32 = \<lparr>shape = [], dtype = Float32, elems = None\<rparr>"

text \<open>\<^verbatim>\<open>a.reshape(new_shape)\<close>: the number of elements must stay.\<close>

definition np_reshape :: "ndarray \<Rightarrow> nat list \<Rightarrow> error + ndarray" where
  "np_reshape a new_shape =
     (if prod_list (shape a) = prod_list new_shape then Inr (a\<lparr>shape := new_shape\<rparr>)
      else Inl ValueError)"

text \<open>\<^verbatim>\<open>assert all((x.buffer is not None for x in self.inputs[1:]))\<close>, element by element.\<close>

fun all_have_buffer :: "Tensor option list \<Rightarrow> error + unit" where
  "all_have_buffer [] = Inr ()"
| "all_have_buffer (None # xs) = Inl AttributeError"
| "all_have_buffer (Some t # xs) = (if has_buffer t then all_have_buffer xs else Inl AssertionError)"

text \<open>Lines 87 to 98: the fold constants, reshaped to broadcast along the channel axis.\<close>

definition fold_constants ::
  "(dtype \<Rightarrow> dtype \<Rightarrow> dtype) \<Rightarrow> Tensor option list \<Rightarrow> error + (ndarray \<times> ndarray)" where
  "fold_constants result_type ins = fst ((
     py_bind (py_lift (py_index ins 1)) (\<lambda>w_opt.
     py_bind (py_lift (py_index ins 2)) (\<lambda>b_opt.
     py_bind (py_lift (py_index ins 3)) (\<lambda>mean_opt.
     py_bind (py_lift (py_index ins 4)) (\<lambda>var_opt.
     py_bind (py_lift (py_attr w_opt)) (\<lambda>w.
     py_bind (py_lift (py_attr var_opt)) (\<lambda>var.
     py_bind (py_lift (np_binop result_type (tensor var) np_scalar_float32)) (\<lambda>var_eps.
     py_bind (py_lift (np_binop result_type (tensor w) (np_sqrt_float32 var_eps))) (\<lambda>new_w.
     py_bind (py_lift (py_attr b_opt)) (\<lambda>b.
     py_bind (py_lift (py_attr mean_opt)) (\<lambda>mean.
     py_bind (py_lift (np_binop result_type (tensor w) (tensor mean))) (\<lambda>w_mean.
     py_bind (py_lift (np_binop result_type w_mean (np_sqrt_float32 var_eps))) (\<lambda>quot.
     py_bind (py_lift (np_binop result_type (tensor b) quot)) (\<lambda>new_b.
     py_bind (py_lift (py_index ins 0)) (\<lambda>inp.
     py_bind (py_lift (py_index (shape new_w) 0)) (\<lambda>channels.
     py_bind (py_lift (py_attr inp)) (\<lambda>inp_t.
     (let new_shape = [1] @ [channels] @ replicate (length (tshape inp_t) - 2) 1 in
     py_bind (py_lift (np_reshape new_w new_shape)) (\<lambda>new_w.
     py_bind (py_lift (np_reshape new_b new_shape)) (\<lambda>new_b.
     py_return (new_w, new_b))))))))))))))))))))
     ) ())"

definition BatchNorm_transform ::
  "(dtype \<Rightarrow> dtype \<Rightarrow> dtype) \<Rightarrow> (unit, BatchNormOperator machine) py" where
  "BatchNorm_transform result_type =
     py_bind (py_get (\<lambda>s. heap s (inputs (self s)))) (\<lambda>ins.
     py_bind (py_lift (all_have_buffer (drop 1 ins))) (\<lambda>_.
     py_bind (py_lift (fold_constants result_type ins)) (\<lambda>consts.
     py_bind (py_lift (py_index ins 0)) (\<lambda>inp.
     py_bind (py_lift (py_attr inp)) (\<lambda>inp_t.
     py_bind (create_attr_tensor (fst consts) None None) (\<lambda>weight.
     py_bind (create_attr_tensor (snd consts) None None) (\<lambda>bias.
     py_bind ((if quantization inp_t \<noteq> None
         then py_bind (create_transform_tensor (tensor inp_t) None None) (\<lambda>new_inp.
         py_bind (new_list [inp]) (\<lambda>i.
         py_bind (new_list [Some new_inp]) (\<lambda>out.
         py_bind (add_operator (mk_op DEQUANTIZE i out NoOptions) False) (\<lambda>_.
         py_return new_inp))))
         else py_return inp_t)) (\<lambda>new_inp.
     py_bind (py_lift (np_binop result_type (tensor new_inp) (tensor weight))) (\<lambda>mul_array.
     py_bind (create_transform_tensor mul_array None None) (\<lambda>mul_out.
     py_bind (new_list [inp, Some weight]) (\<lambda>i.
     py_bind (new_list [Some mul_out]) (\<lambda>out.
     py_bind (add_operator (mk_op MUL i out NoOptions) False) (\<lambda>_.
     py_bind ((if quantization inp_t \<noteq> None
         then py_bind (py_lift (np_binop result_type (tensor mul_out) (tensor bias))) (\<lambda>add_array.
         py_bind (create_transform_tensor add_array None None) (\<lambda>t. py_return (Some t)))
         else py_bind (py_get (\<lambda>s. outputs (self s))) (\<lambda>a. item a 0))) (\<lambda>add_out.
     py_bind (new_list [Some mul_out, Some bias]) (\<lambda>i.
     py_bind (new_list [add_out]) (\<lambda>out.
     py_bind (py_get (\<lambda>s. bn_fusedActivationFunction (self s))) (\<lambda>act.
     py_bind (add_operator (mk_op ADD i out (AddOptions act)) True) (\<lambda>_.
     py_bind ((if quantization inp_t \<noteq> None
         then py_bind (py_get (\<lambda>s. outputs (self s))) (\<lambda>a.
         py_bind (item a 0) (\<lambda>quant_out.
         py_bind (new_list [add_out]) (\<lambda>i.
         py_bind (new_list [quant_out]) (\<lambda>out.
         add_operator (mk_op QUANTIZE i out NoOptions) True))))
         else py_return ())) (\<lambda>_.
     try_restore_edges)))))))))))))))))))"

subsection \<open>The graph container, as the post-condition check reads it\<close>

text \<open>
  The container is not part of this file. The lowering hands it operators and asks for the
  edges to be restored (both logged in the machine); the check of lines 282 to 289 then
  reads \<^verbatim>\<open>tensor_node_map\<close> and the igraph \<^verbatim>\<open>graph.vs\<close>. What the container holds at that
  moment is the parameter \<open>G\<close> of the lowering: a vertex has a name, a node type and the
  targets of its outgoing edges, as indices into \<open>vs\<close>.
\<close>

record vertex =
  vertex_name :: string
  node_type :: OpCode
  out_edges :: "nat list"

record graph_converter =
  tensor_node_map :: "string \<Rightarrow> string option"
  vs :: "vertex list"

text \<open>One round of the loop of lines 282 to 289.\<close>

definition check_operator_output ::
  "graph_converter \<Rightarrow> 'self machine \<Rightarrow> PrimitiveOperator \<Rightarrow> error + unit" where
  "check_operator_output G s p =
     (case py_index (heap s (outputs p)) 0 of
        Inl e \<Rightarrow> Inl e
      | Inr None \<Rightarrow> Inl AttributeError
      | Inr (Some out) \<Rightarrow>
     (case tensor_node_map G (name out) of
        None \<Rightarrow> Inl KeyError
      | Some node_name \<Rightarrow>
     (case find (\<lambda>v. vertex_name v = node_name) (vs G) of
        None \<Rightarrow> Inl ValueError
      | Some node \<Rightarrow>
     (if \<not> 0 < length (out_edges node) then Inl AssertionError
      else (case py_index (vs G) (hd (out_edges node)) of
              Inl e \<Rightarrow> Inl e
            | Inr next_node \<Rightarrow>
                if node_type next_node \<noteq> CONSTANT_NODE then Inr () else Inl AssertionError)))))"

fun post_condition_check ::
  "graph_converter \<Rightarrow> 'self machine \<Rightarrow> PrimitiveOperator list \<Rightarrow> error + unit" where
  "post_condition_check G s [] = Inr ()"
| "post_condition_check G s (p # ps) =
     (case check_operator_output G s p of
        Inl e \<Rightarrow> Inl e
      | Inr _ \<Rightarrow> post_condition_check G s ps)"

subsection \<open>GenericConvOperator.transform\<close>

text \<open>\<^verbatim>\<open>ReshapeOperator([old, attr], [new], attr.tensor)\<close> and its like: two new lists and the operator.\<close>

definition new_operator ::
  "OpCode \<Rightarrow> Tensor option list \<Rightarrow> Tensor option list \<Rightarrow> Options
    \<Rightarrow> (PrimitiveOperator, 'self machine) py" where
  "new_operator c ins outs opts =
     py_bind (new_list ins) (\<lambda>i. py_bind (new_list outs) (\<lambda>out. py_return (mk_op c i out opts)))"

text \<open>The body of the comprehension of lines 174 to 177 (and 329 to 332), for one input.\<close>

definition lift_input ::
  "Tensor option \<Rightarrow> (Tensor, ('a TransformableOperator_scheme) machine) py" where
  "lift_input t_opt =
     py_bind (py_lift (py_attr t_opt)) (\<lambda>t.
     py_bind (py_lift (np_expand_dims2 (tensor t))) (\<lambda>a.
     py_bind (first_output_name) (\<lambda>out.
     create_transform_tensor a (Some (out @ ''_'' @ name t @ ''_4d_input'')) (quantization t))))"

definition shape_attr ::
  "Tensor \<Rightarrow> (Tensor, ('a TransformableOperator_scheme) machine) py" where
  "shape_attr t = create_attr_tensor (np_array_int32 (map int (tshape t))) None None"

text \<open>
  Lines 174 to 198 (and 329 to 352): the reshapes of the first \<open>n\<close> inputs to rank 4, the
  reshape of the output back, and the reassignment of \<^verbatim>\<open>self.inputs\<close> and \<^verbatim>\<open>self.outputs\<close>
  to new lists. The result is \<^verbatim>\<open>(prev_ops, next_ops, weight_tensor)\<close>.
\<close>

definition lift_to_4d ::
  "nat \<Rightarrow> (PrimitiveOperator list \<times> PrimitiveOperator list \<times> Tensor option,
            ('a TransformableOperator_scheme) machine) py" where
  "lift_to_4d n =
     py_bind (py_get (\<lambda>s. heap s (inputs (self s)))) (\<lambda>ins.
     py_bind (py_mapM lift_input (take n ins)) (\<lambda>reshape_outputs.
     py_bind (py_mapM shape_attr reshape_outputs) (\<lambda>reshape_attrs.
     py_bind (py_mapM (\<lambda>(old, new, attr).
         new_operator RESHAPE [old, Some attr] [Some new] (ReshapeOptions (tensor attr)))
         (zip (take n ins) (zip reshape_outputs reshape_attrs))) (\<lambda>reshape_ops.
     py_bind (py_get (\<lambda>s. heap s (outputs (self s)))) (\<lambda>outs.
     py_bind (py_lift (py_index outs 0)) (\<lambda>out0_opt.
     py_bind (py_lift (py_attr out0_opt)) (\<lambda>out0.
     py_bind (py_lift (np_expand_dims2 (tensor out0))) (\<lambda>a.
     py_bind (create_transform_tensor a (Some (name out0 @ ''_4d_output'')) (quantization out0)) (\<lambda>conv_output.
     py_bind (shape_attr out0) (\<lambda>conv_attr.
     py_bind (new_operator RESHAPE [Some conv_output, Some conv_attr] [out0_opt]
         (ReshapeOptions (tensor conv_attr))) (\<lambda>conv_op.
     py_bind (new_list (map Some reshape_outputs @ drop n ins)) (\<lambda>new_inputs.
     py_bind (py_modify (\<lambda>s. s\<lparr>self := (self s)\<lparr>inputs := new_inputs\<rparr>\<rparr>)) (\<lambda>_.
     py_bind (new_list (Some conv_output # drop 1 outs)) (\<lambda>new_outputs.
     py_bind (py_modify (\<lambda>s. s\<lparr>self := (self s)\<lparr>outputs := new_outputs\<rparr>\<rparr>)) (\<lambda>_.
     py_bind (item new_inputs 1) (\<lambda>weight_tensor.
     py_return (reshape_ops, [conv_op], weight_tensor)))))))))))))))))"

text \<open>Lines 168 to 171 (and 324 to 327): the four in-place inserts.\<close>

definition extend_parameters ::
  "(unit, ('a GenericTransposeConvOperator_scheme) machine) py" where
  "extend_parameters = py_modify (\<lambda>s. s\<lparr>self := (self s)
     \<lparr>stride := py_insert 0 1 (stride (self s)),
      padding := py_insert 0 0 (padding (self s)),
      dilation := py_insert 0 1 (dilation (self s)),
      output_padding := py_insert 0 0 (output_padding (self s))\<rparr>\<rparr>)"

text \<open>Lines 164 to 200.\<close>

definition conv_normalize_dims ::
  "nat \<Rightarrow> nat \<Rightarrow> Tensor option
    \<Rightarrow> (PrimitiveOperator list \<times> PrimitiveOperator list \<times> Tensor option,
        GenericConvOperator machine) py" where
  "conv_normalize_dims input_dim weight_dim weight_tensor =
     (if weight_dim = 3 \<or> input_dim = 3
      then py_bind (if weight_dim = 3
                    then py_bind extend_parameters (\<lambda>_. py_return 2)
                    else py_return 1) lift_to_4d
      else if weight_dim \<noteq> 4 then py_raise AssertionError
      else py_return ([], [], weight_tensor))"

text \<open>Lines 202 to 216: the choice of the primitive.\<close>

definition select_primitive ::
  "Tensor \<Rightarrow> Tensor option \<Rightarrow> (PrimitiveOperator, GenericConvOperator machine) py" where
  "select_primitive input_tensor weight_tensor =
     py_bind (py_lift (py_attr weight_tensor)) (\<lambda>w.
     py_bind (py_lift (py_index (tshape w) 1)) (\<lambda>w1.
     py_bind ((if w1 = 1
         then py_bind (py_lift (py_index (tshape w) 0)) (\<lambda>w0.
         py_bind (py_get (\<lambda>s. groups (self s))) (\<lambda>g. py_return (int w0 = g)))
         else py_return False)) (\<lambda>depthwise.
     py_bind ((if depthwise then py_return ()
         else py_bind (py_lift (py_index (tshape input_tensor) 1)) (\<lambda>c.
         if c \<noteq> w1
         then warn ''Group conv is not supported if official tflite interpreter is used''
         else py_return ()))) (\<lambda>_.
     py_bind (py_get self) (\<lambda>me.
     py_bind (py_lift (py_index (stride me) 0)) (\<lambda>sH.
     py_bind (py_lift (py_index (stride me) 1)) (\<lambda>sW.
     py_bind (py_lift (py_index (dilation me) 0)) (\<lambda>dH.
     py_bind (py_lift (py_index (dilation me) 1)) (\<lambda>dW.
     py_return (if depthwise
         then mk_op DEPTHWISE_CONV_2D (inputs me) (outputs me)
         (DepthwiseConv2dOptions sH sW 1 dH dW (fusedActivationFunction me) VALID)
         else mk_op CONV_2D (inputs me) (outputs me)
         (Conv2dOptions sH sW dH dW (fusedActivationFunction me) VALID)))))))))))"

text \<open>Lines 221 to 235: the explicit pad node.\<close>

definition pad_handling ::
  "PrimitiveOperator list \<Rightarrow> (PrimitiveOperator list, GenericConvOperator machine) py" where
  "pad_handling ops =
     py_bind (py_get (\<lambda>s. padding (self s))) (\<lambda>pads.
     if sum_list pads > 0 then
     py_bind (py_lift (py_index pads 0)) (\<lambda>pad_h.
     py_bind (py_lift (py_index pads 1)) (\<lambda>pad_w.
     py_bind (create_attr_tensor
         (np_array2_int32 [[0, 0], [pad_h, pad_h], [pad_w, pad_w], [0, 0]] 2) None None) (\<lambda>pad_tensor.
     py_bind (py_lift (py_index ops 0)) (\<lambda>op0.
     py_bind (item_tensor (outputs op0) 0) (\<lambda>pad_input.
     py_bind (py_lift (np_pad_hw (tensor pad_input) pad_h pad_w)) (\<lambda>pad_array.
     py_bind (create_transform_tensor pad_array None (quantization pad_input)) (\<lambda>pad_out.
     py_bind (py_lift (py_index ops 1)) (\<lambda>op1.
     py_bind (store_item (inputs op1) 0 (Some pad_out)) (\<lambda>_.
     py_bind (new_operator PAD [Some pad_input, Some pad_tensor] [Some pad_out] NoOptions) (\<lambda>pad_op.
     py_return (py_insert 1 pad_op ops)))))))))))
     else py_return ops)"

text \<open>Lines 237 to 253: the weight transpose.\<close>

definition weight_handling ::
  "PrimitiveOperator \<Rightarrow> PrimitiveOperator list
    \<Rightarrow> (PrimitiveOperator list, GenericConvOperator machine) py" where
  "weight_handling conv_op ops =
     py_bind (item (inputs conv_op) 1) (\<lambda>weight.
     (let perm = (if op conv_op = DEPTHWISE_CONV_2D then [1, 2, 3, 0] else [0, 2, 3, 1]) in
     py_bind (create_attr_tensor (np_array_int32 (map int perm)) None None) (\<lambda>perm_tensor.
     py_bind (py_lift (py_attr weight)) (\<lambda>w.
     py_bind (py_lift (np_transpose (tensor w) perm)) (\<lambda>a.
     py_bind (create_transform_tensor a None (quantization w)) (\<lambda>reordered_weight.
     py_bind (store_item (inputs conv_op) 1 (Some reordered_weight)) (\<lambda>_.
     py_bind (new_operator TRANSPOSE [weight, Some perm_tensor] [Some reordered_weight] NoOptions) (\<lambda>reorder_op.
     py_return (py_insert 1 reorder_op ops)))))))))"

text \<open>
  Lines 255 to 273: the bias. Lines 269 and 271 index the \<^verbatim>\<open>Tensor\<close> object and call
  \<^verbatim>\<open>torch.tensor\<close> with a string for \<^verbatim>\<open>dtype\<close>; what these calls into \<^verbatim>\<open>base.py\<close> and torch
  return or raise is not in this file, and is the parameter \<open>torch_tensor\<close>, applied to the
  bias tensor, the replication count and the element type asked for.
\<close>

definition bias_handling ::
  "(Tensor \<Rightarrow> nat \<Rightarrow> dtype \<Rightarrow> error + ndarray) \<Rightarrow> PrimitiveOperator
    \<Rightarrow> (unit, GenericConvOperator machine) py" where
  "bias_handling torch_tensor conv_op =
     py_bind (py_get (\<lambda>s. inputs (self s))) (\<lambda>a.
     py_bind (item_tensor a 1) (\<lambda>w.
     py_bind (py_lift (py_index (tshape w) 0)) (\<lambda>k0.
     py_bind ((if op conv_op = DEPTHWISE_CONV_2D then py_lift (py_index (tshape w) 3)
         else py_return k0)) (\<lambda>kernel_num.
     py_bind (read_list (inputs conv_op)) (\<lambda>cins.
     py_bind ((if length cins = 2 then py_return True
         else py_bind (py_lift (py_index cins 2)) (\<lambda>b. py_return (b = None)))) (\<lambda>no_bias.
     (if no_bias
         then py_bind (item_tensor (inputs conv_op) 0) (\<lambda>x.
         py_bind (create_attr_tensor
         (if tdtype x = Float32 then np_zeros kernel_num Float32 else np_zeros kernel_num Int32)
         None None) (\<lambda>bias.
         py_modify (\<lambda>s. s\<lparr>heap := (heap s)(inputs conv_op := heap s (inputs conv_op) @ [Some bias])\<rparr>)))
         else py_bind (item_tensor (inputs conv_op) 2) (\<lambda>b.
         py_bind (py_lift (py_index (tshape b) 0)) (\<lambda>b0.
         if b0 \<noteq> kernel_num \<and> b0 = 1
         then py_bind (item_tensor (inputs conv_op) 0) (\<lambda>x.
         py_bind (py_lift (torch_tensor b kernel_num
         (if tdtype x = Float32 then Float32 else Int32))) (\<lambda>bias.
         py_bind (create_attr_tensor bias None None) (\<lambda>t.
         store_item (inputs conv_op) 2 (Some t))))
         else py_return ())))))))))"

definition GenericConv_transform ::
  "graph_converter \<Rightarrow> (Tensor \<Rightarrow> nat \<Rightarrow> dtype \<Rightarrow> error + ndarray)
    \<Rightarrow> (unit, GenericConvOperator machine) py" where
  "GenericConv_transform G torch_tensor =
     py_bind (py_get (\<lambda>s. inputs (self s))) (\<lambda>a.
     py_bind (item a 0) (\<lambda>input_opt.
     py_bind (item a 1) (\<lambda>weight_opt.
     py_bind (py_lift (py_attr input_opt)) (\<lambda>input_tensor.
     py_bind (py_lift (py_attr weight_opt)) (\<lambda>weight0.
     py_bind (conv_normalize_dims (length (tshape input_tensor)) (length (tshape weight0)) weight_opt) (\<lambda>lifted.
     (let prev_ops = fst lifted in
     (let next_ops = fst (snd lifted) in
     py_bind (select_primitive input_tensor (snd (snd lifted))) (\<lambda>conv_op.
     py_bind (wrap_ops_with_nhwc_nchw_transposes [conv_op] 0 0) (\<lambda>ops.
     py_bind (py_lift (py_index ops 1)) (\<lambda>conv_op.
     py_bind (pad_handling ops) (\<lambda>ops.
     py_bind (weight_handling conv_op ops) (\<lambda>ops.
     py_bind (bias_handling torch_tensor conv_op) (\<lambda>_.
     (let ops = prev_ops @ ops @ next_ops in
     py_bind (py_mapM (\<lambda>p. add_operator p True) ops) (\<lambda>_.
     py_bind (try_restore_edges) (\<lambda>_.
     py_bind (py_get (\<lambda>s. s)) (\<lambda>s.
     py_lift (post_condition_check G s (butlast ops))))))))))))))))))))"

subsection \<open>GenericTransposeConvOperator.transform\<close>

text \<open>Lines 361 to 381: the crop after the primitive. The result is \<^verbatim>\<open>(ops, output_shape)\<close>.\<close>

definition slice_handling ::
  "PrimitiveOperator list \<Rightarrow> nat list
    \<Rightarrow> (PrimitiveOperator list \<times> nat list, GenericTransposeConvOperator machine) py" where
  "slice_handling ops output_shape =
     py_bind (py_get (\<lambda>s. padding (self s))) (\<lambda>pads.
     if sum_list pads > 0 then
     py_bind (py_lift (py_index pads 0)) (\<lambda>pad_h.
     py_bind (py_lift (py_index pads 1)) (\<lambda>pad_w.
     py_bind (py_lift (py_index ops 1)) (\<lambda>op1.
     py_bind (item_tensor (outputs op1) 0) (\<lambda>sized.
     py_bind (create_attr_tensor (np_array_int32 [0, pad_h, pad_w, 0]) None None) (\<lambda>start_tensor.
     py_bind (create_attr_tensor (np_array_int32 (map int (tshape sized))) None None) (\<lambda>size_tensor.
     py_bind (item (outputs op1) 0) (\<lambda>slice_out.
     py_bind (py_get (\<lambda>s. outputs (self s))) (\<lambda>a.
     py_bind (item_tensor a 0) (\<lambda>out0.
     py_bind (py_lift (np_pad_hw (tensor out0) pad_h pad_w)) (\<lambda>pad_array.
     py_bind (create_transform_tensor pad_array None (quantization out0)) (\<lambda>slice_input.
     py_bind (store_item (outputs op1) 0 (Some slice_input)) (\<lambda>_.
     py_bind (new_operator SLICE [Some slice_input, Some start_tensor, Some size_tensor]
         [slice_out] NoOptions) (\<lambda>slice_op.
     py_return (py_insert 2 slice_op ops, tshape slice_input))))))))))))))
     else py_return (ops, output_shape))"

text \<open>Lines 397 to 403: the bias as an explicit add node before the last operator.\<close>

definition deconv_bias_handling ::
  "PrimitiveOperator list
    \<Rightarrow> (PrimitiveOperator list, GenericTransposeConvOperator machine) py" where
  "deconv_bias_handling ops =
     py_bind (py_get (\<lambda>s. heap s (inputs (self s)))) (\<lambda>ins.
     if length ins > 2 \<and> ins ! 2 \<noteq> None then
     (let bias_tensor = ins ! 2 in
     py_bind (py_lift (py_index_from_end ops 2)) (\<lambda>before_last.
     py_bind (item_tensor (outputs before_last) 0) (\<lambda>add_out.
     py_bind (create_transform_tensor (tensor add_out) None None) (\<lambda>bias_transform.
     py_bind (store_item (outputs before_last) 0 (Some bias_transform)) (\<lambda>_.
     py_bind (new_operator ADD [Some bias_transform, bias_tensor] [Some add_out] (AddOptions NONE)) (\<lambda>add_op.
     py_return (py_insert (length ops - 1) add_op ops)))))))
     else py_return ops)"

definition GenericTransposeConv_transform ::
  "graph_converter \<Rightarrow> (unit, GenericTransposeConvOperator machine) py" where
  "GenericTransposeConv_transform G =
     py_bind (py_get (\<lambda>s. inputs (self s))) (\<lambda>a.
     py_bind (item a 1) (\<lambda>weight_opt.
     py_bind (py_lift (py_attr weight_opt)) (\<lambda>weight0.
     py_bind ((if length (tshape weight0) = 3 then py_bind extend_parameters (\<lambda>_. lift_to_4d 2)
         else if length (tshape weight0) \<noteq> 4 then py_raise AssertionError
         else py_return ([], [], weight_opt))) (\<lambda>lifted.
     (let prev_ops = fst lifted in
     (let next_ops = fst (snd lifted) in
     py_bind (py_get self) (\<lambda>me.
     py_bind (read_list (inputs me)) (\<lambda>ins.
     py_bind (new_list (rev (take 2 ins))) (\<lambda>reversed.
     py_bind (py_lift (py_index (stride me) 0)) (\<lambda>sH.
     py_bind (py_lift (py_index (stride me) 1)) (\<lambda>sW.
     (let conv_op = mk_op TRANSPOSE_CONV reversed (outputs me) (TransposeConvOptions sH sW VALID) in
     py_bind (wrap_ops_with_nhwc_nchw_transposes [conv_op] 1 0) (\<lambda>ops.
     py_bind (item_tensor (outputs conv_op) 0) (\<lambda>conv_out.
     py_bind (slice_handling ops (tshape conv_out)) (\<lambda>sliced.
     (let ops = fst sliced in
     py_bind (create_attr_tensor (np_array_int32 (map int (snd sliced))) None None) (\<lambda>output_shape_tensor.
     py_bind (py_modify (\<lambda>s. s\<lparr>heap := (heap s)(inputs conv_op :=
         py_insert 0 (Some output_shape_tensor) (heap s (inputs conv_op)))\<rparr>)) (\<lambda>_.
     py_bind (item (inputs conv_op) 1) (\<lambda>weight.
     py_bind (create_attr_tensor (np_array_int32 [1, 2, 3, 0]) None None) (\<lambda>perm_tensor.
     py_bind (py_lift (py_attr weight)) (\<lambda>w.
     py_bind (py_lift (np_transpose (tensor w) [1, 2, 3, 0])) (\<lambda>a.
     py_bind (create_transform_tensor a None (quantization w)) (\<lambda>reordered_weight.
     py_bind (store_item (inputs conv_op) 1 (Some reordered_weight)) (\<lambda>_.
     py_bind (new_operator TRANSPOSE [weight, Some perm_tensor] [Some reordered_weight] NoOptions) (\<lambda>reorder_op.
     py_bind (deconv_bias_handling (py_insert 1 reorder_op ops)) (\<lambda>ops.
     (let ops = prev_ops @ ops @ next_ops in
     py_bind (py_mapM (\<lambda>p. add_operator p False) ops) (\<lambda>_.
     try_restore_edges))))))))))))))))))))))))))))"


section \<open>Definitions used in the statements and proofs\<close>

text \<open>Reading a generated name from its end: the digits it ends with, and the two characters before them.\<close>

definition is_digit :: "char \<Rightarrow> bool" where
  "is_digit ch = (ch \<in> set ''0123456789'')"

definition name_digits :: "string \<Rightarrow> string" where
  "name_digits n = takeWhile is_digit (rev n)"

definition name_stem :: "string \<Rightarrow> string" where
  "name_stem n = take 2 (dropWhile is_digit (rev n))"

definition generated_between :: "nat \<Rightarrow> nat \<Rightarrow> nat \<Rightarrow> nat \<Rightarrow> string \<Rightarrow> bool" where
  "generated_between a a' t t' n =
     ((\<exists>b c. n = b @ attr_suffix c \<and> a \<le> c \<and> c < a')
      \<or> (\<exists>b c. n = b @ transform_suffix c \<and> t \<le> c \<and> c < t'))"

section \<open>Example operators\<close>

definition factory_example :: "TransformableOperator machine" where
  "factory_example = fresh_machine [] [Some (example_tensor ''y'' [1, 4, 8, 8] Float32)]
     \<lparr>op = GENERIC_CONV, inputs = 0, outputs = 1, attr_count = 0, transform_count = 0\<rparr>"

text \<open>What the graph received, readable: per operator its code and, for every tensor of its
  lists, the name, shape, element type and the elements where the lowering fixed them.\<close>

definition tensor_summary :: "Tensor \<Rightarrow> string \<times> nat list \<times> dtype \<times> int list option" where
  "tensor_summary t = (name t, tshape t, tdtype t, elems (tensor t))"

definition describe ::
  "'self machine \<Rightarrow> (OpCode \<times> (string \<times> nat list \<times> dtype \<times> int list option) option list
      \<times> (string \<times> nat list \<times> dtype \<times> int list option) option list) list" where
  "describe s = map (\<lambda>(c, i, out). (c, map (map_option tensor_summary) i, map (map_option tensor_summary) out))
     (emitted s)"

text \<open>A container that knows no tensor, one in which every tensor's node has a successor
  that is an operator, and a torch call that raises.\<close>

definition empty_graph :: graph_converter where
  "empty_graph = \<lparr>tensor_node_map = (\<lambda>_. None), vs = []\<rparr>"

definition connected_graph :: graph_converter where
  "connected_graph = \<lparr>tensor_node_map = (\<lambda>_. Some ''n''),
     vs = [\<lparr>vertex_name = ''n'', node_type = CONV_2D, out_edges = [0]\<rparr>]\<rparr>"

definition torch_raises :: "Tensor \<Rightarrow> nat \<Rightarrow> dtype \<Rightarrow> error + ndarray" where
  "torch_raises b k d = Inl TypeError"

text \<open>The 2-D convolution of the end-to-end example: input (1,3,8,8), weight (4,3,3,3),
  stride (1,1), padding (1,1), no bias, one group.\<close>

definition conv2d_example :: "GenericConvOperator machine" where
  "conv2d_example = GenericConvOperator_init
     [Some (example_tensor ''x'' [1, 3, 8, 8] Float32), Some (example_constant ''w'' [4, 3, 3, 3] Float32)]
     [Some (example_tensor ''y'' [1, 4, 8, 8] Float32)] [1, 1] [1, 1] [1, 1] [0, 0] 1 NONE"

text \<open>A batch normalization of a quantized input (1,4,8,8) with four channels.\<close>

definition quantized_tensor :: "string \<Rightarrow> nat list \<Rightarrow> Tensor" where
  "quantized_tensor n sh = mk_Tensor \<lparr>shape = sh, dtype = UInt8, elems = None\<rparr> n False
     (Some \<lparr>scale = 1 / 2, zero_point = 128\<rparr>)"

definition batchnorm_constants :: "Tensor option list" where
  "batchnorm_constants =
     [Some (example_constant ''w'' [4] Float32), Some (example_constant ''b'' [4] Float32),
      Some (example_constant ''m'' [4] Float32), Some (example_constant ''v'' [4] Float32)]"

definition batchnorm_quantized_example :: "BatchNormOperator machine" where
  "batchnorm_quantized_example = BatchNormOperator_init
     (Some (quantized_tensor ''x'' [1, 4, 8, 8]) # batchnorm_constants)
     [Some (quantized_tensor ''y'' [1, 4, 8, 8])] NONE"

definition batchnorm_float_example :: "BatchNormOperator machine" where
  "batchnorm_float_example = BatchNormOperator_init
     (Some (example_tensor ''x'' [1, 4, 8, 8] Float32) # batchnorm_constants)
     [Some (example_tensor ''y'' [1, 4, 8, 8] Float32)] NONE"


section \<open>The monad, decimal text and the factory\<close>

lemma py_bind_Inr_iff:
  "(py_bind m f s = (Inr y, s'')) = (\<exists>x s'. m s = (Inr x, s') \<and> f x s' = (Inr y, s''))"
  by (auto simp: py_bind_def split: prod.splits sum.splits)

lemma py_return_iff [simp]: "(py_return x s = (r, s')) = (r = Inr x \<and> s' = s)"
  by (auto simp: py_return_def)

lemma py_get_iff [simp]: "(py_get f s = (r, s')) = (r = Inr (f s) \<and> s' = s)"
  by (auto simp: py_get_def)

lemma py_modify_iff [simp]: "(py_modify f s = (r, s')) = (r = Inr () \<and> s' = f s)"
  by (auto simp: py_modify_def)

lemma py_lift_iff [simp]: "(py_lift v s = (r, s')) = (v = r \<and> s' = s)"
  by (auto simp: py_lift_def)

lemma below_ten_cases:
  "(k::nat) < 10 \<Longrightarrow> k = 0 \<or> k = 1 \<or> k = 2 \<or> k = 3 \<or> k = 4 \<or> k = 5 \<or> k = 6 \<or> k = 7 \<or> k = 8 \<or> k = 9"
  by arith

lemma digit_char_is_digit: "is_digit (digit_char d)"
proof -
  have "d mod 10 < 10" by simp
  from below_ten_cases [OF this] show ?thesis
    by (auto simp: digit_char_def is_digit_def)
qed

lemma digit_char_inj: "a < 10 \<Longrightarrow> b < 10 \<Longrightarrow> digit_char a = digit_char b \<Longrightarrow> a = b"
proof -
  assume a: "a < 10" and b: "b < 10" and e: "digit_char a = digit_char b"
  show ?thesis using below_ten_cases [OF a] below_ten_cases [OF b] e
    by (auto simp: digit_char_def)
qed

lemma str_nat_digits: "list_all is_digit (str_nat n)"
  by (induction n rule: str_nat.induct) (subst str_nat.simps, simp add: digit_char_is_digit)

lemma str_nat_nonempty: "str_nat n \<noteq> []"
  by (subst str_nat.simps) simp

lemma str_nat_inj: "str_nat m = str_nat n \<Longrightarrow> m = n"
proof (induction m arbitrary: n rule: str_nat.induct)
  case (1 m)
  show ?case
  proof (cases "m < 10")
    case True
    then have lm: "length (str_nat m) = 1" by (subst str_nat.simps) simp
    have "n < 10"
    proof (rule ccontr)
      assume "\<not> n < 10"
      then have "str_nat n = str_nat (n div 10) @ [digit_char (n mod 10)]"
        by (subst str_nat.simps) simp
      then have "length (str_nat n) \<ge> 2"
        using str_nat_nonempty [of "n div 10"] by (cases "str_nat (n div 10)") auto
      with lm "1.prems" show False by simp
    qed
    with True "1.prems" show ?thesis
      by (subst (asm) str_nat.simps, subst (asm) (2) str_nat.simps) (simp add: digit_char_inj)
  next
    case False
    then have em: "str_nat m = str_nat (m div 10) @ [digit_char (m mod 10)]"
      by (subst str_nat.simps) simp
    then have lm: "length (str_nat m) \<ge> 2"
      using str_nat_nonempty [of "m div 10"] by (cases "str_nat (m div 10)") auto
    have nn: "\<not> n < 10"
    proof
      assume "n < 10"
      then have "length (str_nat n) = 1" by (subst str_nat.simps) simp
      with lm "1.prems" show False by simp
    qed
    then have en: "str_nat n = str_nat (n div 10) @ [digit_char (n mod 10)]"
      by (subst str_nat.simps) simp
    from em en "1.prems" have a: "str_nat (m div 10) = str_nat (n div 10)"
      and b: "digit_char (m mod 10) = digit_char (n mod 10)" by auto
    from "1.IH" [OF False a] have d: "m div 10 = n div 10" .
    from b have "m mod 10 = n mod 10" by (intro digit_char_inj) auto
    with d show ?thesis by (metis div_mult_mod_eq)
  qed
qed

lemma takeWhile_all_append:
  "list_all P xs \<Longrightarrow> takeWhile P (xs @ ys) = xs @ takeWhile P ys"
  by (induction xs) auto

lemma dropWhile_all_append:
  "list_all P xs \<Longrightarrow> dropWhile P (xs @ ys) = dropWhile P ys"
  by (induction xs) auto

lemma rev_digits: "list_all is_digit (rev (str_nat c))"
  using str_nat_digits [of c] by (simp add: list_all_iff)

lemma attr_name_tag:
  "name_digits (b @ attr_suffix c) = (if c = 0 then [] else rev (str_nat c))"
  "name_stem (b @ attr_suffix c) = (if c = 0 then ''rt'' else ''_r'')"
  by (simp_all add: name_digits_def name_stem_def attr_suffix_def is_digit_def
      takeWhile_all_append dropWhile_all_append rev_digits str_nat_digits)

lemma transform_name_tag:
  "name_digits (b @ transform_suffix c) = (if c = 0 then [] else rev (str_nat c))"
  "name_stem (b @ transform_suffix c) = (if c = 0 then ''mr'' else ''_m'')"
  by (simp_all add: name_digits_def name_stem_def transform_suffix_def is_digit_def
      takeWhile_all_append dropWhile_all_append rev_digits str_nat_digits)

lemma attr_names_differ: "b @ attr_suffix c = b' @ attr_suffix c' \<Longrightarrow> c = c'"
proof -
  assume e: "b @ attr_suffix c = b' @ attr_suffix c'"
  then have "name_digits (b @ attr_suffix c) = name_digits (b' @ attr_suffix c')" by simp
  then show ?thesis
    using str_nat_nonempty [of c] str_nat_nonempty [of c']
    by (auto simp: attr_name_tag split: if_splits dest: str_nat_inj)
qed

lemma transform_names_differ: "b @ transform_suffix c = b' @ transform_suffix c' \<Longrightarrow> c = c'"
proof -
  assume e: "b @ transform_suffix c = b' @ transform_suffix c'"
  then have "name_digits (b @ transform_suffix c) = name_digits (b' @ transform_suffix c')" by simp
  then show ?thesis
    using str_nat_nonempty [of c] str_nat_nonempty [of c']
    by (auto simp: transform_name_tag split: if_splits dest: str_nat_inj)
qed

lemma attr_transform_names_differ: "b @ attr_suffix c \<noteq> b' @ transform_suffix c'"
proof
  assume e: "b @ attr_suffix c = b' @ transform_suffix c'"
  then have "name_stem (b @ attr_suffix c) = name_stem (b' @ transform_suffix c')" by simp
  then show False
    by (auto simp: attr_name_tag transform_name_tag split: if_splits)
qed

lemma first_output_name_iff:
  "(first_output_name s = (Inr out, s')) =
   (\<exists>x xs. heap s (outputs (self s)) = Some x # xs \<and> out = name x \<and> s' = s)"
  by (cases "heap s (outputs (self s))")
     (auto simp: first_output_name_def item_tensor_def item_def read_list_def py_bind_def
        py_index_def py_attr_def py_get_def py_lift_def py_return_def split: option.splits)

lemma create_attr_tensor_iff:
  "(create_attr_tensor a None q s = (Inr t, s')) =
   (\<exists>x xs. heap s (outputs (self s)) = Some x # xs
      \<and> t = mk_Tensor a (name x @ attr_suffix (attr_count (self s))) True q
      \<and> s' = s\<lparr>self := (self s)\<lparr>attr_count := Suc (attr_count (self s))\<rparr>\<rparr>)"
  by (auto simp: create_attr_tensor_def py_bind_Inr_iff first_output_name_iff attr_suffix_def)

lemma create_transform_tensor_iff:
  "(create_transform_tensor a None q s = (Inr t, s')) =
   (\<exists>x xs. heap s (outputs (self s)) = Some x # xs
      \<and> t = mk_Tensor a (name x @ transform_suffix (transform_count (self s))) False q
      \<and> s' = s\<lparr>self := (self s)\<lparr>transform_count := Suc (transform_count (self s))\<rparr>\<rparr>)"
  by (auto simp: create_transform_tensor_def py_bind_Inr_iff first_output_name_iff transform_suffix_def)

lemma generated_between_mono:
  "generated_between a a' t t' n \<Longrightarrow> a0 \<le> a \<Longrightarrow> t0 \<le> t \<Longrightarrow> generated_between a0 a' t0 t' n"
  unfolding generated_between_def
  apply (erule disjE)
   apply (rule disjI1)
   apply (blast intro: le_trans)
  apply (rule disjI2)
  apply (blast intro: le_trans)
  done

lemma mk_Tensor_name [simp]: "name (mk_Tensor a n b q) = n"
  by (simp add: mk_Tensor_def)

lemma factory_step_inv:
  assumes "factory_step c s = (Inr ts, s')"
  shows "attr_count (self s) \<le> attr_count (self s') \<and>
         transform_count (self s) \<le> transform_count (self s') \<and>
         length ts \<le> 1 \<and>
         (\<forall>t \<in> set ts. \<exists>b. (name t = b @ attr_suffix (attr_count (self s))
               \<and> attr_count (self s') = Suc (attr_count (self s)))
            \<or> (name t = b @ transform_suffix (transform_count (self s))
               \<and> transform_count (self s') = Suc (transform_count (self s))))"
  using assms
  by (cases c) (auto simp: py_bind_Inr_iff create_attr_tensor_iff create_transform_tensor_iff)

lemma factory_calls_inv:
  "factory_calls cs s = (Inr ts, s') \<Longrightarrow>
     attr_count (self s) \<le> attr_count (self s') \<and>
     transform_count (self s) \<le> transform_count (self s') \<and>
     distinct (map name ts) \<and>
     (\<forall>t \<in> set ts. generated_between (attr_count (self s)) (attr_count (self s'))
         (transform_count (self s)) (transform_count (self s')) (name t))"
proof (induction cs arbitrary: s ts)
  case Nil
  then show ?case by simp
next
  case (Cons c cs)
  from Cons.prems obtain ts1 s1 ts2 where
    step: "factory_step c s = (Inr ts1, s1)" and rest: "factory_calls cs s1 = (Inr ts2, s')"
    and ts: "ts = ts1 @ ts2"
    by (auto simp: py_bind_Inr_iff)
  note st = factory_step_inv [OF step]
  note ih = Cons.IH [OF rest]
  have mono: "attr_count (self s) \<le> attr_count (self s')"
    "transform_count (self s) \<le> transform_count (self s')"
    using st ih by auto
  have old: "\<forall>t \<in> set ts2. generated_between (attr_count (self s)) (attr_count (self s'))
         (transform_count (self s)) (transform_count (self s')) (name t)"
    using ih st by (auto intro: generated_between_mono)
  have new: "\<forall>t \<in> set ts1. generated_between (attr_count (self s)) (attr_count (self s'))
         (transform_count (self s)) (transform_count (self s')) (name t)"
  proof
    fix t assume "t \<in> set ts1"
    with st obtain b where
      "(name t = b @ attr_suffix (attr_count (self s)) \<and> attr_count (self s1) = Suc (attr_count (self s)))
       \<or> (name t = b @ transform_suffix (transform_count (self s))
            \<and> transform_count (self s1) = Suc (transform_count (self s)))"
      by blast
    then show "generated_between (attr_count (self s)) (attr_count (self s'))
         (transform_count (self s)) (transform_count (self s')) (name t)"
      using ih unfolding generated_between_def
      by (metis Suc_le_lessD le_refl)
  qed
  have apart: "name t1 \<noteq> name t2" if "t1 \<in> set ts1" "t2 \<in> set ts2" for t1 t2
  proof
    assume eq: "name t1 = name t2"
    from that(2) ih have g2: "generated_between (attr_count (self s1)) (attr_count (self s'))
         (transform_count (self s1)) (transform_count (self s')) (name t2)" by blast
    from that(1) st obtain b where
      c1: "(name t1 = b @ attr_suffix (attr_count (self s)) \<and> attr_count (self s1) = Suc (attr_count (self s)))
       \<or> (name t1 = b @ transform_suffix (transform_count (self s))
            \<and> transform_count (self s1) = Suc (transform_count (self s)))"
      by blast
    from c1 show False
    proof
      assume a: "name t1 = b @ attr_suffix (attr_count (self s)) \<and> attr_count (self s1) = Suc (attr_count (self s))"
      from g2 show False unfolding generated_between_def
      proof
        assume "\<exists>b' c. name t2 = b' @ attr_suffix c \<and> attr_count (self s1) \<le> c \<and> c < attr_count (self s')"
        then obtain b' c where "name t2 = b' @ attr_suffix c" "attr_count (self s1) \<le> c" by blast
        with a eq have "attr_count (self s) = c" "Suc (attr_count (self s)) \<le> c"
          using attr_names_differ [of b "attr_count (self s)" b' c] by auto
        then show False by simp
      next
        assume "\<exists>b' c. name t2 = b' @ transform_suffix c \<and> transform_count (self s1) \<le> c \<and> c < transform_count (self s')"
        then obtain b' c where "name t2 = b' @ transform_suffix c" by blast
        with a eq show False using attr_transform_names_differ [of b "attr_count (self s)" b' c] by simp
      qed
    next
      assume a: "name t1 = b @ transform_suffix (transform_count (self s))
            \<and> transform_count (self s1) = Suc (transform_count (self s))"
      from g2 show False unfolding generated_between_def
      proof
        assume "\<exists>b' c. name t2 = b' @ attr_suffix c \<and> attr_count (self s1) \<le> c \<and> c < attr_count (self s')"
        then obtain b' c where "name t2 = b' @ attr_suffix c" by blast
        with a eq show False
          using attr_transform_names_differ [of b' c b "transform_count (self s)"] by simp
      next
        assume "\<exists>b' c. name t2 = b' @ transform_suffix c \<and> transform_count (self s1) \<le> c \<and> c < transform_count (self s')"
        then obtain b' c where "name t2 = b' @ transform_suffix c" "transform_count (self s1) \<le> c" by blast
        with a eq have "transform_count (self s) = c" "Suc (transform_count (self s)) \<le> c"
          using transform_names_differ [of b "transform_count (self s)" b' c] by auto
        then show False by simp
      qed
    qed
  qed
  have d1: "distinct (map name ts1)"
    using st by (cases ts1) auto
  have "distinct (map name ts)"
    using d1 ih apart unfolding ts by auto
  with mono old new show ?case unfolding ts by auto
qed

lemma str_nat_below_ten: "n < 10 \<Longrightarrow> str_nat n = [digit_char n]"
  by (subst str_nat.simps) simp

section \<open>Successful runs of the primitive steps\<close>

lemma py_raise_Inr_iff [simp]: "(py_raise e s = (Inr x, s')) = False"
  by (simp add: py_raise_def)

lemma py_index_Inr_iff: "(py_index xs i = Inr x) = (i < length xs \<and> xs ! i = x)"
  by (auto simp: py_index_def)

lemma py_index_from_end_Inr_iff:
  "(py_index_from_end xs k = Inr x) = (0 < k \<and> k \<le> length xs \<and> xs ! (length xs - k) = x)"
  by (auto simp: py_index_from_end_def)

lemma py_attr_Inr_iff: "(py_attr v = Inr x) = (v = Some x)"
  by (cases v) (auto simp: py_attr_def)

lemma new_list_iff:
  "(new_list xs s = (r, s')) =
   (r = Inr (next_addr s)
    \<and> s' = s\<lparr>heap := (heap s)(next_addr s := xs), next_addr := Suc (next_addr s)\<rparr>)"
  by (auto simp: new_list_def)

lemma read_list_iff: "(read_list a s = (r, s')) = (r = Inr (heap s a) \<and> s' = s)"
  by (auto simp: read_list_def)

lemma store_item_Inr_iff:
  "(store_item a i v s = (Inr u, s')) =
   (i < length (heap s a) \<and> s' = s\<lparr>heap := (heap s)(a := (heap s a)[i := v])\<rparr>)"
  by (auto simp: store_item_def)

lemma item_Inr_iff:
  "(item a i s = (Inr x, s')) = (i < length (heap s a) \<and> heap s a ! i = x \<and> s' = s)"
  by (auto simp: item_def read_list_def py_bind_Inr_iff py_index_Inr_iff)

lemma item_tensor_Inr_iff:
  "(item_tensor a i s = (Inr t, s')) = (i < length (heap s a) \<and> heap s a ! i = Some t \<and> s' = s)"
  by (auto simp: item_tensor_def py_bind_Inr_iff item_Inr_iff py_attr_Inr_iff)

lemma add_operator_iff:
  "(add_operator p f s = (r, s')) = (r = Inr () \<and> s' = s\<lparr>added := added s @ [(p, f)]\<rparr>)"
  by (auto simp: add_operator_def)

lemma try_restore_edges_iff:
  "(try_restore_edges s = (r, s')) = (r = Inr () \<and> s' = s\<lparr>restore_calls := Suc (restore_calls s)\<rparr>)"
  by (auto simp: try_restore_edges_def)

lemma warn_iff:
  "(warn msg s = (r, s')) = (r = Inr () \<and> s' = s\<lparr>warnings := warnings s @ [msg]\<rparr>)"
  by (auto simp: warn_def)

lemma new_operator_iff:
  "(new_operator c ins outs opts s = (r, s')) =
   (r = Inr (mk_op c (next_addr s) (Suc (next_addr s)) opts)
    \<and> s' = s\<lparr>heap := (heap s)(next_addr s := ins, Suc (next_addr s) := outs),
              next_addr := Suc (Suc (next_addr s))\<rparr>)"
  by (auto simp: new_operator_def py_bind_def new_list_def py_return_def)

lemma np_transpose_Inr_iff:
  "(np_transpose a perm = Inr b) =
   (length perm = length (shape a) \<and> distinct perm \<and> list_all (\<lambda>p. p < length (shape a)) perm
    \<and> b = \<lparr>shape = map (\<lambda>p. shape a ! p) perm, dtype = dtype a, elems = None\<rparr>)"
  by (auto simp: np_transpose_def)

lemma np_expand_dims2_Inr_iff:
  "(np_expand_dims2 a = Inr b) =
   (2 \<le> length (shape a) \<and> b = a\<lparr>shape := take 2 (shape a) @ [1] @ drop 2 (shape a)\<rparr>)"
  by (auto simp: np_expand_dims2_def)

lemma np_pad_hw_Inr_iff:
  "(np_pad_hw a h w = Inr b) =
   (length (shape a) = 4 \<and> 0 \<le> h \<and> 0 \<le> w
    \<and> b = \<lparr>shape = [shape a ! 0, shape a ! 1 + 2 * nat h, shape a ! 2 + 2 * nat w, shape a ! 3],
             dtype = dtype a, elems = None\<rparr>)"
  by (auto simp: np_pad_hw_def)

lemmas run_simps =
  py_bind_Inr_iff py_index_Inr_iff py_index_from_end_Inr_iff py_attr_Inr_iff
  new_list_iff read_list_iff store_item_Inr_iff item_Inr_iff item_tensor_Inr_iff
  add_operator_iff try_restore_edges_iff warn_iff new_operator_iff
  create_attr_tensor_iff create_transform_tensor_iff first_output_name_iff
  np_transpose_Inr_iff np_expand_dims2_Inr_iff np_pad_hw_Inr_iff

lemmas example_defs =
  fresh_machine_def example_tensor_def example_constant_def mk_Tensor_def mk_op_def
  np_array_int32_def np_array2_int32_def np_zeros_def attr_suffix_def transform_suffix_def
  str_nat_below_ten digit_char_def py_insert_def

section \<open>Unfolding the model on a given operator\<close>

lemma replicate_four: "replicate 4 x = [x, x, x, x]"
  by (simp add: numeral_eq_Suc)

lemmas monad_defs =
  py_bind_def py_return_def py_raise_def py_lift_def py_get_def py_modify_def
  py_index_def py_index_from_end_def py_attr_def py_insert_def Let_def

lemmas numpy_defs =
  np_array_int32_def np_array2_int32_def np_zeros_def np_transpose_def np_expand_dims2_def
  np_pad_hw_def np_binop_def np_broadcast_def np_sqrt_float32_def np_scalar_float32_def
  np_reshape_def replicate_four

lemmas machine_defs =
  new_list_def read_list_def store_item_def item_def item_tensor_def add_operator_def
  try_restore_edges_def warn_def first_output_name_def create_attr_tensor_def
  create_transform_tensor_def mk_Tensor_def mk_op_def new_operator_def fresh_machine_def
  str_nat_below_ten digit_char_def

lemmas view_defs =
  emitted_def describe_def tensor_summary_def example_tensor_def example_constant_def
  quantized_tensor_def

lemmas conv_defs =
  GenericConv_transform_def conv_normalize_dims_def select_primitive_def lift_to_4d_def
  lift_input_def shape_attr_def extend_parameters_def
  wrap_ops_with_nhwc_nchw_transposes_def pad_handling_def weight_handling_def bias_handling_def
  GenericConvOperator_init_def check_operator_output_def

lemmas deconv_defs =
  GenericTransposeConv_transform_def lift_to_4d_def lift_input_def shape_attr_def
  extend_parameters_def wrap_ops_with_nhwc_nchw_transposes_def slice_handling_def
  deconv_bias_handling_def GenericTransposeConvOperator_init_def

lemmas batchnorm_defs =
  BatchNorm_transform_def fold_constants_def BatchNormOperator_init_def batchnorm_constants_def

section \<open>C9: generated names\<close>

text \<open>
  C9, as stated, fails: the claim has the first attribute tensor of an operator whose first
  output is named \<open>y\<close> called \<open>y_attr\<close>; the factory calls it \<open>y_te_attr\<close>.
\<close>

theorem factory_attr_name_counterexample:
  "map_sum id name (fst (create_attr_tensor (np_array_int32 [0, 3, 1, 2]) None None factory_example))
     = Inr ''y_te_attr''
   \<and> ''y_te_attr'' \<noteq> ''y'' @ ''_attr''"
  by (simp add: factory_example_def fresh_machine_def example_tensor_def create_attr_tensor_def
      first_output_name_def item_tensor_def item_def read_list_def py_bind_def py_get_def
      py_lift_def py_return_def py_modify_def py_index_def py_attr_def)

text \<open>
  C9, amended. A factory call with no explicit name returns a tensor named after the
  operator's first output at the time of the call, followed by \<open>_te_attr\<close> (counter 0) or
  \<open>_te_attr_c\<close> (counter \<open>c > 0\<close>) for an attribute tensor and by \<open>_te_transform\<close> or
  \<open>_te_transform_c\<close> for a transform tensor; the call advances its own counter by one and
  leaves the other. In every sequence of such calls, also when \<^verbatim>\<open>self.outputs\<close> is changed
  between them, no two generated names are equal.
\<close>

theorem factory_generated_names:
  "(create_attr_tensor a None q s = (Inr t, s') \<longrightarrow>
      (\<exists>x xs. heap s (outputs (self s)) = Some x # xs
         \<and> name t = name x @ attr_suffix (attr_count (self s)))
      \<and> attr_count (self s') = Suc (attr_count (self s))
      \<and> transform_count (self s') = transform_count (self s))
   \<and> (create_transform_tensor a None q s = (Inr t, s') \<longrightarrow>
      (\<exists>x xs. heap s (outputs (self s)) = Some x # xs
         \<and> name t = name x @ transform_suffix (transform_count (self s)))
      \<and> transform_count (self s') = Suc (transform_count (self s))
      \<and> attr_count (self s') = attr_count (self s))
   \<and> (factory_calls cs s = (Inr ts, s') \<longrightarrow> distinct (map name ts))
   \<and> attr_suffix 0 = ''_te_attr'' \<and> attr_suffix 1 = ''_te_attr_1'' \<and> attr_suffix 2 = ''_te_attr_2''
   \<and> transform_suffix 0 = ''_te_transform'' \<and> transform_suffix 1 = ''_te_transform_1''"
proof -
  have a: "create_attr_tensor a None q s = (Inr t, s') \<longrightarrow>
      (\<exists>x xs. heap s (outputs (self s)) = Some x # xs
         \<and> name t = name x @ attr_suffix (attr_count (self s)))
      \<and> attr_count (self s') = Suc (attr_count (self s))
      \<and> transform_count (self s') = transform_count (self s)"
    by (auto simp: create_attr_tensor_iff)
  have b: "create_transform_tensor a None q s = (Inr t, s') \<longrightarrow>
      (\<exists>x xs. heap s (outputs (self s)) = Some x # xs
         \<and> name t = name x @ transform_suffix (transform_count (self s)))
      \<and> transform_count (self s') = Suc (transform_count (self s))
      \<and> attr_count (self s') = attr_count (self s)"
    by (auto simp: create_transform_tensor_iff)
  have c: "factory_calls cs s = (Inr ts, s') \<longrightarrow> distinct (map name ts)"
    using factory_calls_inv [of cs s ts s'] by blast
  have d: "attr_suffix 0 = ''_te_attr'' \<and> attr_suffix 1 = ''_te_attr_1'' \<and> attr_suffix 2 = ''_te_attr_2''
     \<and> transform_suffix 0 = ''_te_transform'' \<and> transform_suffix 1 = ''_te_transform_1''"
    by (simp add: attr_suffix_def transform_suffix_def str_nat_below_ten digit_char_def)
  from a b c d show ?thesis by blast
qed

text \<open>
  A run of the theorem: five factory calls on an operator whose first output is \<open>y\<close>, with
  the output list replaced after the second call by one whose first tensor is \<open>z\<close>.
\<close>

theorem factory_generated_names_witness:
  "\<exists>ts s'. factory_calls
      [NewAttr (np_array_int32 [0, 3, 1, 2]) None, NewTransform (np_zeros 4 Float32) None,
       SetOutputs [Some (example_tensor ''z'' [1, 4, 8, 8] Float32)],
       NewAttr (np_array_int32 [0, 2, 3, 1]) None, NewTransform (np_zeros 4 Float32) None,
       NewAttr (np_zeros 4 Int32) None] factory_example = (Inr ts, s')
     \<and> map name ts = [''y_te_attr'', ''y_te_transform'', ''z_te_attr_1'', ''z_te_transform_1'', ''z_te_attr_2'']
     \<and> distinct (map name ts)"
proof -
  let ?cs = "[NewAttr (np_array_int32 [0, 3, 1, 2]) None, NewTransform (np_zeros 4 Float32) None,
       SetOutputs [Some (example_tensor ''z'' [1, 4, 8, 8] Float32)],
       NewAttr (np_array_int32 [0, 2, 3, 1]) None, NewTransform (np_zeros 4 Float32) None,
       NewAttr (np_zeros 4 Int32) None]"
  have "\<exists>ts s'. factory_calls ?cs factory_example = (Inr ts, s')
     \<and> map name ts = [''y_te_attr'', ''y_te_transform'', ''z_te_attr_1'', ''z_te_transform_1'', ''z_te_attr_2'']"
    by (simp add: py_bind_Inr_iff create_attr_tensor_iff create_transform_tensor_iff
        factory_example_def fresh_machine_def example_tensor_def attr_suffix_def
        transform_suffix_def str_nat_below_ten digit_char_def)
  then obtain ts s' where run: "factory_calls ?cs factory_example = (Inr ts, s')"
    and names: "map name ts = [''y_te_attr'', ''y_te_transform'', ''z_te_attr_1'', ''z_te_transform_1'', ''z_te_attr_2'']"
    by (elim exE conjE)
  have "distinct (map name ts)"
    by (rule factory_generated_names [where cs = ?cs and s = factory_example and ts = ts and s' = s',
          THEN conjunct2, THEN conjunct2, THEN conjunct1, THEN mp, OF run])
  with run names show ?thesis
    apply (intro exI conjI)
      apply assumption+
    done
qed

section \<open>C3: the end-to-end 2-D convolution\<close>

text \<open>
  C3, as stated, fails: the claim puts the pad node second and the weight transpose third.
  The weight transpose is inserted at position 1 after the pad node was (lines 235 and 253),
  so it comes second and the pad node third.
\<close>

theorem conv2d_example_order_counterexample:
  "map fst (describe (snd (GenericConv_transform connected_graph torch_raises conv2d_example)))
     \<noteq> [TRANSPOSE, PAD, TRANSPOSE, CONV_2D, TRANSPOSE]"
  by (simp add: conv2d_example_def connected_graph_def conv_defs view_defs machine_defs numpy_defs monad_defs)

text \<open>
  C3, amended. For the standard 2-D convolution with input (1,3,8,8), weight (4,3,3,3),
  stride (1,1), padding (1,1), no bias and one group, whatever the container holds, exactly
  five operators are emitted, in the order transpose-in, transpose-weight, pad, convolution,
  transpose-out; the last one writes the declared output of shape (1,4,8,8), and the bias
  of the convolution is a new constant of shape (4,) with all elements zero.
\<close>

theorem conv2d_example_emits:
  "describe (snd (GenericConv_transform G torch_tensor conv2d_example)) =
     [(TRANSPOSE,
        [Some (''x'', [1, 3, 8, 8], Float32, None),
         Some (''y_te_attr_1'', [4], Int32, Some [0, 2, 3, 1])],
        [Some (''y_te_transform'', [1, 8, 8, 3], Float32, None)]),
      (TRANSPOSE,
        [Some (''w'', [4, 3, 3, 3], Float32, None),
         Some (''y_te_transform_1_te_attr_3'', [4], Int32, Some [0, 2, 3, 1])],
        [Some (''y_te_transform_1_te_transform_3'', [4, 3, 3, 3], Float32, None)]),
      (PAD,
        [Some (''y_te_transform'', [1, 8, 8, 3], Float32, None),
         Some (''y_te_transform_1_te_attr_2'', [4, 2], Int32, Some [0, 0, 1, 1, 1, 1, 0, 0])],
        [Some (''y_te_transform_1_te_transform_2'', [1, 10, 10, 3], Float32, None)]),
      (CONV_2D,
        [Some (''y_te_transform_1_te_transform_2'', [1, 10, 10, 3], Float32, None),
         Some (''y_te_transform_1_te_transform_3'', [4, 3, 3, 3], Float32, None),
         Some (''y_te_transform_1_te_attr_4'', [4], Float32, Some [0, 0, 0, 0])],
        [Some (''y_te_transform_1'', [1, 8, 8, 4], Float32, None)]),
      (TRANSPOSE,
        [Some (''y_te_transform_1'', [1, 8, 8, 4], Float32, None),
         Some (''y_te_attr'', [4], Int32, Some [0, 3, 1, 2])],
        [Some (''y'', [1, 4, 8, 8], Float32, None)])]"
  by (simp add: conv2d_example_def conv_defs view_defs machine_defs numpy_defs monad_defs)

section \<open>C1: the operators of a batch normalization\<close>

text \<open>
  C1 on a quantized input. The four operators are emitted in the order dequantize,
  multiply, add, quantize, the add reads the multiply's output and the quantize reads the
  add's output and writes the declared output \<open>y\<close>. But the multiply reads the quantized
  input \<open>x\<close> itself (line 109 passes \<^verbatim>\<open>inp\<close>, not \<^verbatim>\<open>new_inp\<close>): the output
  \<open>y_te_transform\<close> of the dequantize node is read by no operator, and the chain the claim
  describes is not connected.
\<close>

theorem batchnorm_quantized_multiply_reads_input:
  "describe (snd (BatchNorm_transform (\<lambda>a b. Float32) batchnorm_quantized_example)) =
     [(DEQUANTIZE,
        [Some (''x'', [1, 4, 8, 8], UInt8, None)],
        [Some (''y_te_transform'', [1, 4, 8, 8], UInt8, None)]),
      (MUL,
        [Some (''x'', [1, 4, 8, 8], UInt8, None),
         Some (''y_te_attr'', [1, 4, 1, 1], Float32, None)],
        [Some (''y_te_transform_1'', [1, 4, 8, 8], Float32, None)]),
      (ADD,
        [Some (''y_te_transform_1'', [1, 4, 8, 8], Float32, None),
         Some (''y_te_attr_1'', [1, 4, 1, 1], Float32, None)],
        [Some (''y_te_transform_2'', [1, 4, 8, 8], Float32, None)]),
      (QUANTIZE,
        [Some (''y_te_transform_2'', [1, 4, 8, 8], Float32, None)],
        [Some (''y'', [1, 4, 8, 8], UInt8, None)])]"
  by (simp add: batchnorm_quantized_example_def batchnorm_defs view_defs machine_defs numpy_defs monad_defs)

end
